theory Spec2Isabelle
  imports Main
begin

section \<open>The proxy handler of server.py\<close>

text \<open>
  The development embeds \<^verbatim>\<open>MyHTTPRequestHandler\<close> of \<^verbatim>\<open>server.py\<close>: the CORS
  headers of \<^verbatim>\<open>end_headers\<close>, \<^verbatim>\<open>do_OPTIONS\<close>, \<^verbatim>\<open>do_POST\<close> and the two
  proxy methods. A request is handled by a function from the request and the state of
  the connection to the new state and the exception that escaped the handler, if any.
  Every \<^verbatim>\<open>raise\<close> of the Python is a value, every \<^verbatim>\<open>except\<close> clause a case.
  What is printed to stderr is not kept, but every expression the logging evaluates is,
  since evaluating it can raise.

  Two things are taken for granted: writing to the client's socket succeeds, and
  \<^verbatim>\<open>e.read()\<close> returns the whole body of an \<^verbatim>\<open>HTTPError\<close>.
\<close>

subsection \<open>Bytes, text and JSON values\<close>

text \<open>
  A Python \<^verbatim>\<open>bytes\<close> is a list of 8-bit characters. A Python \<^verbatim>\<open>str\<close> is held as
  its UTF-8 encoding, so \<^verbatim>\<open>encode('utf-8')\<close> is the identity and
  \<^verbatim>\<open>decode('utf-8')\<close> is the identity on the well-formed byte sequences and raises
  \<^verbatim>\<open>UnicodeDecodeError\<close> on the others.
\<close>

type_synonym bytes = string
type_synonym str = string

text \<open>
  A float is a mantissa with a binary exponent, an infinity or \<^verbatim>\<open>nan\<close>; a dict is the
  list of its items, each key once.
\<close>

datatype pyfloat = Finite int int | Infinite bool | NaN

datatype json =
    JNull
  | JBool bool
  | JInt int
  | JFloat pyfloat
  | JStr str
  | JList "json list"
  | JDict "(str \<times> json) list"

text \<open>
  \<^verbatim>\<open>json.dumps(v).encode('utf-8')\<close> is kept symbolic: \<open>Dumped v\<close> stands for the
  bytes of the serialisation of \<open>v\<close>, \<open>Raw b\<close> for bytes relayed as they came.
\<close>

datatype payload = Raw bytes | Dumped json

datatype exc_class =
    TypeError | ValueError | AttributeError | IndexError | KeyError
  | UnicodeDecodeError | JSONDecodeError | OverflowError | MemoryError | OtherError str

text \<open>
  \<open>HTTPError code body\<close> is \<^verbatim>\<open>urllib.error.HTTPError\<close> with \<^verbatim>\<open>e.code\<close> and the
  bytes \<^verbatim>\<open>e.read()\<close> returns; \<open>URLError reason\<close> is a \<^verbatim>\<open>urllib.error.URLError\<close>
  that is no \<^verbatim>\<open>HTTPError\<close>, with \<^verbatim>\<open>str(e.reason)\<close>; \<open>Exc c m\<close> is any other
  subclass of \<^verbatim>\<open>Exception\<close>, with \<^verbatim>\<open>str(e)\<close>. The messages of the exceptions that
  the interpreter raises are those of CPython 3.11; an \<^verbatim>\<open>HTTPError\<close> never reaches
  \<^verbatim>\<open>str(e)\<close>, since the first \<^verbatim>\<open>except\<close> clause of both methods takes it.
\<close>

datatype pyexc = HTTPError nat bytes | URLError str | Exc exc_class str

type_synonym 'a attempt = "pyexc + 'a"

definition and_then :: "'a attempt \<Rightarrow> ('a \<Rightarrow> 'b attempt) \<Rightarrow> 'b attempt" where
  "and_then m f = (case m of Inl e \<Rightarrow> Inl e | Inr x \<Rightarrow> f x)"

definition quoted :: "str \<Rightarrow> str" where
  "quoted s = [CHR 0x27] @ s @ [CHR 0x27]"

fun str_of_exc :: "pyexc \<Rightarrow> str" where
  "str_of_exc (Exc c m) = m"
| "str_of_exc (URLError reason) = ''<urlopen error '' @ reason @ ''>''"
| "str_of_exc (HTTPError code b) = ''HTTP Error''"

subsection \<open>UTF-8\<close>

definition byte_in :: "nat \<Rightarrow> nat \<Rightarrow> char \<Rightarrow> bool" where
  "byte_in lo hi c = (lo \<le> of_char c \<and> (of_char c :: nat) \<le> hi)"

definition second_of3 :: "char \<Rightarrow> char \<Rightarrow> bool" where
  "second_of3 c c1 =
     (if byte_in 0xE0 0xE0 c then byte_in 0xA0 0xBF c1
      else if byte_in 0xED 0xED c then byte_in 0x80 0x9F c1
      else byte_in 0x80 0xBF c1)"

definition second_of4 :: "char \<Rightarrow> char \<Rightarrow> bool" where
  "second_of4 c c1 =
     (if byte_in 0xF0 0xF0 c then byte_in 0x90 0xBF c1
      else if byte_in 0xF4 0xF4 c then byte_in 0x80 0x8F c1
      else byte_in 0x80 0xBF c1)"

fun utf8_valid :: "bytes \<Rightarrow> bool" where
  "utf8_valid [] = True"
| "utf8_valid (c # cs) =
     (if byte_in 0x00 0x7F c then utf8_valid cs
      else if byte_in 0xC2 0xDF c then
        (case cs of
           c1 # r \<Rightarrow> byte_in 0x80 0xBF c1 \<and> utf8_valid r
         | _ \<Rightarrow> False)
      else if byte_in 0xE0 0xEF c then
        (case cs of
           c1 # c2 # r \<Rightarrow> second_of3 c c1 \<and> byte_in 0x80 0xBF c2 \<and> utf8_valid r
         | _ \<Rightarrow> False)
      else if byte_in 0xF0 0xF4 c then
        (case cs of
           c1 # c2 # c3 # r \<Rightarrow>
             second_of4 c c1 \<and> byte_in 0x80 0xBF c2 \<and> byte_in 0x80 0xBF c3 \<and> utf8_valid r
         | _ \<Rightarrow> False)
      else False)"

text \<open>The first code point of a text and the number of its code points.\<close>

definition first_char :: "str \<Rightarrow> str" where
  "first_char s =
     (case s of
        [] \<Rightarrow> []
      | c # cs \<Rightarrow>
          if byte_in 0xC2 0xDF c then take 2 s
          else if byte_in 0xE0 0xEF c then take 3 s
          else if byte_in 0xF0 0xF4 c then take 4 s
          else [c])"

definition text_len :: "str \<Rightarrow> nat" where
  "text_len s = length (filter (\<lambda>c. \<not> byte_in 0x80 0xBF c) s)"

fun starts_with :: "str \<Rightarrow> str \<Rightarrow> bool" where
  "starts_with s [] = True"
| "starts_with [] (p # ps) = False"
| "starts_with (c # cs) (p # ps) = (c = p \<and> starts_with cs ps)"

fun contains_text :: "str \<Rightarrow> str \<Rightarrow> bool" where
  "contains_text [] p = (p = [])"
| "contains_text (c # cs) p = (starts_with (c # cs) p \<or> contains_text cs p)"

subsection \<open>The Python operations the handler applies to parsed JSON\<close>

fun type_name :: "json \<Rightarrow> str" where
  "type_name JNull = ''NoneType''"
| "type_name (JBool b) = ''bool''"
| "type_name (JInt i) = ''int''"
| "type_name (JFloat f) = ''float''"
| "type_name (JStr s) = ''str''"
| "type_name (JList xs) = ''list''"
| "type_name (JDict kvs) = ''dict''"

definition not_subscriptable :: "json \<Rightarrow> pyexc" where
  "not_subscriptable v =
     Exc TypeError (quoted (type_name v) @ '' object is not subscriptable'')"

text \<open>\<^verbatim>\<open>v.get(key, default)\<close>: only a dict has the method.\<close>

fun py_get :: "json \<Rightarrow> str \<Rightarrow> json \<Rightarrow> json attempt" where
  "py_get (JDict kvs) key dflt =
     Inr (case map_of kvs key of None \<Rightarrow> dflt | Some v \<Rightarrow> v)"
| "py_get v key dflt =
     Inl (Exc AttributeError
            (quoted (type_name v) @ '' object has no attribute '' @ quoted ''get''))"

text \<open>\<^verbatim>\<open>v[0]\<close>\<close>

fun py_index0 :: "json \<Rightarrow> json attempt" where
  "py_index0 (JList xs) =
     (case xs of
        [] \<Rightarrow> Inl (Exc IndexError ''list index out of range'')
      | x # _ \<Rightarrow> Inr x)"
| "py_index0 (JStr s) =
     (if s = [] then Inl (Exc IndexError ''string index out of range'')
      else Inr (JStr (first_char s)))"
| "py_index0 (JDict kvs) = Inl (Exc KeyError ''0'')"
| "py_index0 v = Inl (not_subscriptable v)"

text \<open>
  \<^verbatim>\<open>v[:n]\<close>. The slice only goes to stderr, so the model keeps whether taking it
  raises. A dict refuses the slice as a key (\<^verbatim>\<open>TypeError\<close> up to Python 3.11,
  \<^verbatim>\<open>KeyError\<close> afterwards: an \<^verbatim>\<open>Exception\<close> in both).
\<close>

fun py_slice :: "json \<Rightarrow> unit attempt" where
  "py_slice (JStr s) = Inr ()"
| "py_slice (JList xs) = Inr ()"
| "py_slice (JDict kvs) = Inl (Exc TypeError (''unhashable type: '' @ quoted ''slice''))"
| "py_slice v = Inl (not_subscriptable v)"

text \<open>Truth value of \<^verbatim>\<open>if v\<close>.\<close>

fun py_truthy :: "json \<Rightarrow> bool" where
  "py_truthy JNull = False"
| "py_truthy (JBool b) = b"
| "py_truthy (JInt i) = (i \<noteq> 0)"
| "py_truthy (JFloat f) = (case f of Finite m e \<Rightarrow> m \<noteq> 0 | _ \<Rightarrow> True)"
| "py_truthy (JStr s) = (s \<noteq> [])"
| "py_truthy (JList xs) = (xs \<noteq> [])"
| "py_truthy (JDict kvs) = (kvs \<noteq> [])"

text \<open>\<^verbatim>\<open>needle in v\<close> for a text \<open>needle\<close>.\<close>

fun py_contains :: "json \<Rightarrow> str \<Rightarrow> bool attempt" where
  "py_contains (JDict kvs) needle = Inr (needle \<in> set (map fst kvs))"
| "py_contains (JList xs) needle = Inr (JStr needle \<in> set xs)"
| "py_contains (JStr s) needle = Inr (contains_text s needle)"
| "py_contains v needle =
     Inl (Exc TypeError (''argument of type '' @ quoted (type_name v) @ '' is not iterable''))"

text \<open>\<^verbatim>\<open>v[key]\<close> for a text \<open>key\<close>.\<close>

fun py_item :: "json \<Rightarrow> str \<Rightarrow> json attempt" where
  "py_item (JDict kvs) key =
     (case map_of kvs key of
        None \<Rightarrow> Inl (Exc KeyError (quoted key))
      | Some v \<Rightarrow> Inr v)"
| "py_item (JList xs) key =
     Inl (Exc TypeError ''list indices must be integers or slices, not str'')"
| "py_item (JStr s) key =
     Inl (Exc TypeError (''string indices must be integers, not '' @ quoted ''str''))"
| "py_item v key = Inl (not_subscriptable v)"

text \<open>\<^verbatim>\<open>len(v)\<close>\<close>

fun py_len :: "json \<Rightarrow> nat attempt" where
  "py_len (JStr s) = Inr (text_len s)"
| "py_len (JList xs) = Inr (length xs)"
| "py_len (JDict kvs) = Inr (length (remdups (map fst kvs)))"
| "py_len v =
     Inl (Exc TypeError (''object of type '' @ quoted (type_name v) @ '' has no len()''))"

subsection \<open>Requests, the library and the state of a connection\<close>

datatype http_method = GET | HEAD | POST | OPTIONS | OtherMethod str

text \<open>
  A request as \<^verbatim>\<open>parse_request\<close> leaves it in the attributes of the handler.
  \<open>request_version\<close> is \<^verbatim>\<open>self.request_version\<close>: the version of the request line,
  \<^verbatim>\<open>HTTP/0.9\<close> when the line has none, and also when the line is refused before its
  version is read. \<open>content_length\<close> is \<^verbatim>\<open>self.headers['Content-Length']\<close>,
  \<^verbatim>\<open>None\<close> when the request has no such header; \<open>rfile\<close> is what the client sends
  after the headers.
\<close>

record request =
  request_version :: str
  command :: http_method
  url_path :: str
  content_length :: "str option"
  rfile :: bytes

record upstream_request =
  req_url :: str
  req_data :: payload
  req_headers :: "(str \<times> json) list"
  req_timeout :: "nat option"

record upstream_response =
  up_status :: nat
  up_headers :: "(str \<times> str) list"
  up_body :: bytes

text \<open>
  What the handler takes from outside this repository is a parameter:
  \<^item> \<open>int_of_str\<close> is \<^verbatim>\<open>int\<close> on a \<^verbatim>\<open>str\<close>, \<open>Inl\<close> the message of its
    \<^verbatim>\<open>ValueError\<close>;
  \<^item> \<open>buffer_fault\<close> is the exception, if any, with which the interpreter fails to get
    the memory for a read of that length from that stream (\<^verbatim>\<open>MemoryError\<close>, or
    \<^verbatim>\<open>OverflowError\<close> for a length close to \<open>2 ^ 63\<close>);
  \<^item> \<open>utf8_error\<close> is the message of the \<^verbatim>\<open>UnicodeDecodeError\<close> that
    \<^verbatim>\<open>decode('utf-8')\<close> raises on bytes that are no UTF-8;
  \<^item> \<open>json_loads\<close> is \<^verbatim>\<open>json.loads\<close>, \<open>Inl\<close> the message of the exception it raises;
  \<^item> \<open>transport\<close> is what \<^verbatim>\<open>urlopen\<close> and \<^verbatim>\<open>response.read()\<close> do with a request
    whose header values the HTTP client accepts: the status, headers and payload of a
    2xx answer, or the exception raised;
  \<^item> \<open>version_string\<close> and \<open>date_time_string\<close> are the values of the two headers that
    \<^verbatim>\<open>BaseHTTPRequestHandler.send_response\<close> adds;
  \<^item> \<open>inherited\<close> is the status, the headers and the body that the base classes choose
    when they answer a request: \<^verbatim>\<open>do_GET\<close> and \<^verbatim>\<open>do_HEAD\<close> of
    \<^verbatim>\<open>SimpleHTTPRequestHandler\<close>, and \<^verbatim>\<open>send_error\<close>.
\<close>

record stdlib =
  int_of_str :: "str \<Rightarrow> str + int"
  buffer_fault :: "bytes \<Rightarrow> int \<Rightarrow> (exc_class \<times> str) option"
  utf8_error :: "bytes \<Rightarrow> str"
  json_loads :: "str \<Rightarrow> str + json"
  transport :: "upstream_request \<Rightarrow> pyexc + upstream_response"
  version_string :: str
  date_time_string :: str
  inherited :: "request \<Rightarrow> nat \<times> (str \<times> str) list \<times> payload list"

text \<open>
  The state of a connection: the status line and the header lines sent so far, whether
  the headers were ended, the chunks written to \<^verbatim>\<open>wfile\<close>, and the calls of
  \<^verbatim>\<open>urlopen\<close> made so far, each with the request and the timeout it was given
  (\<open>None\<close> when the call has no \<^verbatim>\<open>timeout\<close> argument). A call is recorded when
  \<^verbatim>\<open>urlopen\<close> is entered, whatever becomes of it.
\<close>

record hstate =
  status_line :: "nat option"
  header_lines :: "(str \<times> str) list"
  headers_ended :: bool
  body_out :: "payload list"
  upstream_calls :: "upstream_request list"

definition fresh :: hstate where
  "fresh = \<lparr>status_line = None, header_lines = [], headers_ended = False,
            body_out = [], upstream_calls = []\<rparr>"

subsection \<open>Library calls\<close>

text \<open>\<^verbatim>\<open>int(self.headers['Content-Length'])\<close>: \<^verbatim>\<open>int(None)\<close> is a \<^verbatim>\<open>TypeError\<close>.\<close>

definition py_int :: "stdlib \<Rightarrow> str option \<Rightarrow> int attempt" where
  "py_int L v =
     (case v of
        None \<Rightarrow>
          Inl (Exc TypeError
                 (''int() argument must be a string, a bytes-like object or a real number, not ''
                  @ quoted ''NoneType''))
      | Some s \<Rightarrow>
          (case int_of_str L s of
             Inl m \<Rightarrow> Inl (Exc ValueError m)
           | Inr n \<Rightarrow> Inr n))"

text \<open>
  \<^verbatim>\<open>self.rfile.read(n)\<close> of the buffered reader: a length below \<open>-1\<close> is a
  \<^verbatim>\<open>ValueError\<close>, a length that is no \<^verbatim>\<open>ssize_t\<close> an \<^verbatim>\<open>OverflowError\<close>; when the
  buffer for the read cannot be had, the library's exception; otherwise everything for
  \<open>-1\<close> and up to \<open>n\<close> bytes for the other lengths. That the read waits for bytes that
  have not arrived is not modelled.
\<close>

definition rfile_read :: "stdlib \<Rightarrow> bytes \<Rightarrow> int \<Rightarrow> bytes attempt" where
  "rfile_read L b n =
     (if n < - 1 then Inl (Exc ValueError ''read length must be non-negative or -1'')
      else if 2 ^ 63 \<le> n then
        Inl (Exc OverflowError
               (''cannot fit '' @ quoted ''int'' @ '' into an index-sized integer''))
      else
        (case buffer_fault L b n of
           Some (c, m) \<Rightarrow> Inl (Exc c m)
         | None \<Rightarrow> Inr (if n = - 1 then b else take (nat n) b)))"

definition decode_utf8 :: "stdlib \<Rightarrow> bytes \<Rightarrow> str attempt" where
  "decode_utf8 L b =
     (if utf8_valid b then Inr b else Inl (Exc UnicodeDecodeError (utf8_error L b)))"

definition loads :: "stdlib \<Rightarrow> str \<Rightarrow> json attempt" where
  "loads L s =
     (case json_loads L s of
        Inl m \<Rightarrow> Inl (Exc JSONDecodeError m)
      | Inr v \<Rightarrow> Inr v)"

text \<open>
  \<^verbatim>\<open>http.client\<close> takes a \<^verbatim>\<open>str\<close> or an \<^verbatim>\<open>int\<close> (so also a \<^verbatim>\<open>bool\<close>) as the
  value of a request header. On the first other value \<^verbatim>\<open>putheader\<close> raises
  \<^verbatim>\<open>TypeError\<close>, before the connection is opened.
\<close>

fun header_value_ok :: "json \<Rightarrow> bool" where
  "header_value_ok (JStr s) = True"
| "header_value_ok (JInt i) = True"
| "header_value_ok (JBool b) = True"
| "header_value_ok v = False"

definition urlopen :: "stdlib \<Rightarrow> upstream_request \<Rightarrow> upstream_response attempt" where
  "urlopen L req =
     (case filter (\<lambda>(k, v). \<not> header_value_ok v) (req_headers req) of
        [] \<Rightarrow> transport L req
      | (k, v) # _ \<Rightarrow>
          Inl (Exc TypeError
                 (''expected string or bytes-like object, got '' @ quoted (type_name v))))"

text \<open>\<^verbatim>\<open>str(n)\<close> for a length.\<close>

definition digit_char :: "nat \<Rightarrow> char" where
  "digit_char d = ''0123456789'' ! d"

function str_of_nat :: "nat \<Rightarrow> str" where
  "str_of_nat n =
     (if n < 10 then [digit_char n]
      else str_of_nat (n div 10) @ [digit_char (n mod 10)])"
  by pat_completeness auto
termination
  by (relation "measure id") auto

declare str_of_nat.simps [simp del]

subsection \<open>Sending a response\<close>

text \<open>
  The methods of \<^verbatim>\<open>BaseHTTPRequestHandler\<close>. \<^verbatim>\<open>send_response_only\<close>,
  \<^verbatim>\<open>send_header\<close> and \<^verbatim>\<open>end_headers\<close> do nothing for a request of version
  \<^verbatim>\<open>HTTP/0.9\<close>; \<^verbatim>\<open>send_response\<close> sends the status line and the \<^verbatim>\<open>Server\<close> and
  \<^verbatim>\<open>Date\<close> headers.
\<close>

definition send_response_only :: "request \<Rightarrow> nat \<Rightarrow> hstate \<Rightarrow> hstate" where
  "send_response_only rq code s =
     (if request_version rq \<noteq> ''HTTP/0.9'' then s\<lparr>status_line := Some code\<rparr> else s)"

definition send_header :: "request \<Rightarrow> str \<Rightarrow> str \<Rightarrow> hstate \<Rightarrow> hstate" where
  "send_header rq keyword v s =
     (if request_version rq \<noteq> ''HTTP/0.9''
      then s\<lparr>header_lines := header_lines s @ [(keyword, v)]\<rparr>
      else s)"

definition send_response :: "stdlib \<Rightarrow> request \<Rightarrow> nat \<Rightarrow> hstate \<Rightarrow> hstate" where
  "send_response L rq code s =
     send_header rq ''Date'' (date_time_string L)
       (send_header rq ''Server'' (version_string L) (send_response_only rq code s))"

definition base_end_headers :: "request \<Rightarrow> hstate \<Rightarrow> hstate" where
  "base_end_headers rq s =
     (if request_version rq \<noteq> ''HTTP/0.9'' then s\<lparr>headers_ended := True\<rparr> else s)"

text \<open>\<^verbatim>\<open>end_headers\<close> of \<^verbatim>\<open>MyHTTPRequestHandler\<close>, lines 25 to 31.\<close>

definition end_headers :: "request \<Rightarrow> hstate \<Rightarrow> hstate" where
  "end_headers rq s =
     base_end_headers rq
       (send_header rq ''Cache-Control'' ''no-store, no-cache, must-revalidate''
         (send_header rq ''Access-Control-Allow-Headers''
            ''Content-Type, x-api-key, x-goog-api-key''
           (send_header rq ''Access-Control-Allow-Methods'' ''GET, POST, OPTIONS''
             (send_header rq ''Access-Control-Allow-Origin'' ''*'' s))))"

definition wfile_write :: "payload \<Rightarrow> hstate \<Rightarrow> hstate" where
  "wfile_write b s = s\<lparr>body_out := body_out s @ [b]\<rparr>"

definition do_OPTIONS :: "stdlib \<Rightarrow> request \<Rightarrow> hstate \<Rightarrow> hstate \<times> pyexc option" where
  "do_OPTIONS L rq s = (end_headers rq (send_response L rq 200 s), None)"

subsection \<open>The envelope and the logging\<close>

text \<open>
  Lines 53 to 59 and 160 to 166: the body is read, decoded and parsed, and the two
  fields are taken with \<^verbatim>\<open>request_data.get\<close>, \<^verbatim>\<open>None\<close> for a missing one.
\<close>

definition read_envelope :: "stdlib \<Rightarrow> request \<Rightarrow> (json \<times> json) attempt" where
  "read_envelope L rq =
     and_then (py_int L (content_length rq)) (\<lambda>n.
     and_then (rfile_read L (rfile rq) n) (\<lambda>post_data.
     and_then (decode_utf8 L post_data) (\<lambda>post_text.
     and_then (loads L post_text) (\<lambda>request_data.
     and_then (py_get request_data ''apiKey'' JNull) (\<lambda>api_key.
     and_then (py_get request_data ''body'' JNull) (\<lambda>body.
     Inr (api_key, body)))))))"

text \<open>Lines 65 to 69: what the request log of \<^verbatim>\<open>proxy_claude\<close> evaluates.\<close>

definition claude_log_request :: "json \<Rightarrow> json \<Rightarrow> unit attempt" where
  "claude_log_request api_key body =
     and_then (py_get body ''model'' JNull) (\<lambda>_.
     and_then (py_get body ''max_tokens'' JNull) (\<lambda>_.
     and_then (py_get body ''temperature'' JNull) (\<lambda>_.
     if py_truthy api_key then py_slice api_key else Inr ())))"

text \<open>Lines 172 to 174: what the request log of \<^verbatim>\<open>proxy_gemini\<close> evaluates.\<close>

definition gemini_log_request :: "json \<Rightarrow> json \<Rightarrow> unit attempt" where
  "gemini_log_request api_key body =
     and_then (py_get body ''contents'' (JList [JDict []])) (\<lambda>contents.
     and_then (py_index0 contents) (\<lambda>content0.
     and_then (py_get content0 ''parts'' (JList [JDict []])) (\<lambda>parts.
     and_then (py_index0 parts) (\<lambda>part0.
     and_then (py_get part0 ''text'' (JStr ''N/A'')) (\<lambda>prompt_text.
     py_slice prompt_text)))))"

text \<open>
  Lines 105 to 115, the body of the inner \<^verbatim>\<open>try\<close> of \<^verbatim>\<open>proxy_claude\<close>; its
  \<^verbatim>\<open>except Exception\<close> (lines 116 and 117) only prints, which is \<open>suppress\<close>.
\<close>

definition fence :: str where
  "fence = [CHR 0x60, CHR 0x60, CHR 0x60]"

definition claude_inspect :: "stdlib \<Rightarrow> str \<Rightarrow> unit attempt" where
  "claude_inspect L response_text =
     and_then (loads L response_text) (\<lambda>parsed.
     and_then (py_contains parsed ''content'') (\<lambda>present.
     if \<not> present then Inr ()
     else
       and_then (py_item parsed ''content'') (\<lambda>content.
       and_then (py_len content) (\<lambda>n.
       if \<not> 0 < n then Inr ()
       else
         and_then (py_index0 content) (\<lambda>content0.
         and_then (py_get content0 ''text'' (JStr [])) (\<lambda>content_text.
         and_then (py_len content_text) (\<lambda>_.
         and_then (py_slice content_text) (\<lambda>_.
         and_then (py_contains content_text (fence @ ''json'')) (\<lambda>fenced.
         if fenced then Inr ()
         else and_then (py_contains content_text fence) (\<lambda>_. Inr ()))))))))))"

definition suppress :: "unit attempt \<Rightarrow> unit attempt" where
  "suppress m = (case m of Inl e \<Rightarrow> Inr () | Inr u \<Rightarrow> Inr u)"

text \<open>Lines 85 to 119: the payload is decoded for the log, then inspected.\<close>

definition claude_log_response :: "stdlib \<Rightarrow> upstream_response \<Rightarrow> unit attempt" where
  "claude_log_response L response =
     and_then (decode_utf8 L (up_body response)) (\<lambda>response_text.
     suppress (claude_inspect L response_text))"

subsection \<open>The two proxy methods\<close>

definition claude_url :: str where
  "claude_url = ''https://api.anthropic.com/v1/messages''"

definition gemini_url :: str where
  "gemini_url = ''https://generativelanguage.googleapis.com/v1beta/models/gemini-2.5-flash-image-preview:generateContent''"

definition claude_request :: "json \<Rightarrow> json \<Rightarrow> upstream_request" where
  "claude_request api_key body =
     \<lparr>req_url = claude_url,
      req_data = Dumped body,
      req_headers =
        [(''Content-Type'', JStr ''application/json''),
         (''x-api-key'', api_key),
         (''anthropic-version'', JStr ''2023-06-01'')],
      req_timeout = None\<rparr>"

definition gemini_request :: "json \<Rightarrow> json \<Rightarrow> upstream_request" where
  "gemini_request api_key body =
     \<lparr>req_url = gemini_url,
      req_data = Dumped body,
      req_headers =
        [(''Content-Type'', JStr ''application/json''),
         (''x-goog-api-key'', api_key)],
      req_timeout = Some 60\<rparr>"

text \<open>The \<^verbatim>\<open>try\<close> block of \<^verbatim>\<open>proxy_claude\<close>, lines 51 to 126.\<close>

definition claude_try :: "stdlib \<Rightarrow> request \<Rightarrow> hstate \<Rightarrow> unit attempt \<times> hstate" where
  "claude_try L rq s =
     (case and_then (read_envelope L rq) (\<lambda>(api_key, body).
             and_then (claude_log_request api_key body) (\<lambda>_. Inr (api_key, body))) of
        Inl e \<Rightarrow> (Inl e, s)
      | Inr (api_key, body) \<Rightarrow>
          (let req = claude_request api_key body;
               s1 = s\<lparr>upstream_calls := upstream_calls s @ [req]\<rparr>
           in case urlopen L req of
                Inl e \<Rightarrow> (Inl e, s1)
              | Inr response \<Rightarrow>
                  (case claude_log_response L response of
                     Inl e \<Rightarrow> (Inl e, s1)
                   | Inr _ \<Rightarrow>
                       (Inr (),
                        wfile_write (Raw (up_body response))
                          (end_headers rq
                            (send_header rq ''Content-Length'' (str_of_nat (length (up_body response)))
                              (send_header rq ''Content-Type'' ''application/json''
                                (send_response L rq 200 s1))))))))"

text \<open>
  \<^verbatim>\<open>proxy_claude\<close> with its two \<^verbatim>\<open>except\<close> clauses, lines 128 to 151. An exception
  raised inside a clause is not caught by the clause after it: it leaves the method.
\<close>

definition proxy_claude :: "stdlib \<Rightarrow> request \<Rightarrow> hstate \<Rightarrow> hstate \<times> pyexc option" where
  "proxy_claude L rq s =
     (case claude_try L rq s of
        (Inr _, s') \<Rightarrow> (s', None)
      | (Inl (HTTPError code error_body), s') \<Rightarrow>
          (case decode_utf8 L error_body of
             Inl e \<Rightarrow> (s', Some e)
           | Inr error_text \<Rightarrow>
               (wfile_write (Raw error_body)
                  (end_headers rq
                    (send_header rq ''Content-Length'' (str_of_nat (length error_body))
                      (send_header rq ''Content-Type'' ''application/json''
                        (send_response L rq code s')))),
                None))
      | (Inl e, s') \<Rightarrow>
          (wfile_write (Dumped (JDict [(''error'', JDict [(''message'', JStr (str_of_exc e))])]))
             (end_headers rq
               (send_header rq ''Content-Type'' ''application/json''
                 (send_response L rq 500 s'))),
           None))"

text \<open>The \<^verbatim>\<open>try\<close> block of \<^verbatim>\<open>proxy_gemini\<close>, lines 158 to 202.\<close>

definition gemini_try :: "stdlib \<Rightarrow> request \<Rightarrow> hstate \<Rightarrow> unit attempt \<times> hstate" where
  "gemini_try L rq s =
     (case and_then (read_envelope L rq) (\<lambda>(api_key, body).
             and_then (gemini_log_request api_key body) (\<lambda>_. Inr (api_key, body))) of
        Inl e \<Rightarrow> (Inl e, s)
      | Inr (api_key, body) \<Rightarrow>
          (let req = gemini_request api_key body;
               s1 = s\<lparr>upstream_calls := upstream_calls s @ [req]\<rparr>
           in case urlopen L req of
                Inl e \<Rightarrow> (Inl e, s1)
              | Inr response \<Rightarrow>
                  (Inr (),
                   wfile_write (Raw (up_body response))
                     (end_headers rq
                       (send_header rq ''Content-Type'' ''application/json''
                         (send_response L rq 200 s1))))))"

text \<open>\<^verbatim>\<open>proxy_gemini\<close> with its three \<^verbatim>\<open>except\<close> clauses, lines 204 to 229.\<close>

definition proxy_gemini :: "stdlib \<Rightarrow> request \<Rightarrow> hstate \<Rightarrow> hstate \<times> pyexc option" where
  "proxy_gemini L rq s =
     (case gemini_try L rq s of
        (Inr _, s') \<Rightarrow> (s', None)
      | (Inl (HTTPError code error_body), s') \<Rightarrow>
          (case decode_utf8 L error_body of
             Inl e \<Rightarrow> (s', Some e)
           | Inr error_text \<Rightarrow>
               (wfile_write (Raw error_body)
                  (end_headers rq
                    (send_header rq ''Content-Type'' ''application/json''
                      (send_response L rq code s'))),
                None))
      | (Inl (URLError reason), s') \<Rightarrow>
          (wfile_write (Dumped (JDict [(''error'', JDict [(''message'', JStr (''Network error: '' @ reason))])]))
             (end_headers rq
               (send_header rq ''Content-Type'' ''application/json''
                 (send_response L rq 500 s'))),
           None)
      | (Inl e, s') \<Rightarrow>
          (wfile_write (Dumped (JDict [(''error'', JDict [(''message'', JStr (str_of_exc e))])]))
             (end_headers rq
               (send_header rq ''Content-Type'' ''application/json''
                 (send_response L rq 500 s'))),
           None))"

subsection \<open>Dispatch\<close>

text \<open>
  \<^verbatim>\<open>do_POST\<close>, lines 38 to 45. Neither \<^verbatim>\<open>SimpleHTTPRequestHandler\<close> nor its base
  class has a \<^verbatim>\<open>do_POST\<close>, so \<^verbatim>\<open>super().do_POST()\<close> raises \<^verbatim>\<open>AttributeError\<close>.
\<close>

definition do_POST :: "stdlib \<Rightarrow> request \<Rightarrow> hstate \<Rightarrow> hstate \<times> pyexc option" where
  "do_POST L rq s =
     (if url_path rq = ''/api/claude'' then proxy_claude L rq s
      else if url_path rq = ''/api/gemini'' then proxy_gemini L rq s
      else (s, Some (Exc AttributeError
                       (quoted ''super'' @ '' object has no attribute '' @ quoted ''do_POST''))))"

text \<open>
  A response of the base classes (\<^verbatim>\<open>do_GET\<close>, \<^verbatim>\<open>do_HEAD\<close>, \<^verbatim>\<open>send_error\<close>):
  they call \<^verbatim>\<open>send_response\<close>, \<^verbatim>\<open>send_header\<close> for each header, then
  \<^verbatim>\<open>self.end_headers()\<close>, the method this class overrides, and write the body.
\<close>

definition base_reply ::
    "stdlib \<Rightarrow> request \<Rightarrow> nat \<times> (str \<times> str) list \<times> payload list \<Rightarrow> hstate \<Rightarrow> hstate" where
  "base_reply L rq r s =
     (case r of
        (code, hs, chunks) \<Rightarrow>
          fold wfile_write chunks
            (end_headers rq
              (fold (\<lambda>(k, v). send_header rq k v) hs (send_response L rq code s))))"

text \<open>
  \<^verbatim>\<open>handle_one_request\<close>, for a request that \<^verbatim>\<open>parse_request\<close> accepts: it calls
  the method named after the command of the request, whatever the path is; a command
  without a method is answered by \<^verbatim>\<open>send_error\<close>.
\<close>

definition handle :: "stdlib \<Rightarrow> request \<Rightarrow> hstate \<Rightarrow> hstate \<times> pyexc option" where
  "handle L rq s =
     (case command rq of
        OPTIONS \<Rightarrow> do_OPTIONS L rq s
      | POST \<Rightarrow> do_POST L rq s
      | _ \<Rightarrow> (base_reply L rq (inherited L rq) s, None))"

text \<open>
  A request that \<^verbatim>\<open>handle_one_request\<close> or \<^verbatim>\<open>parse_request\<close> does not accept
  (a request line that is too long or malformed, a version it does not know) is answered
  by \<^verbatim>\<open>send_error\<close>, with the request version in force at that moment.
\<close>

definition refuse :: "stdlib \<Rightarrow> request \<Rightarrow> hstate \<Rightarrow> hstate" where
  "refuse L rq s = base_reply L rq (inherited L rq) s"

subsection \<open>The headers of \<^verbatim>\<open>end_headers\<close> on a response\<close>

definition cors_sent :: "hstate \<Rightarrow> bool" where
  "cors_sent s =
     (headers_ended s \<and>
      (''Access-Control-Allow-Origin'', ''*'') \<in> set (header_lines s) \<and>
      (''Access-Control-Allow-Methods'', ''GET, POST, OPTIONS'') \<in> set (header_lines s) \<and>
      (''Access-Control-Allow-Headers'', ''Content-Type, x-api-key, x-goog-api-key'')
        \<in> set (header_lines s) \<and>
      (''Cache-Control'', ''no-store, no-cache, must-revalidate'') \<in> set (header_lines s))"

subsection \<open>Example runs\<close>

text \<open>
  The library of an example run: \<^verbatim>\<open>int\<close> reads a string of decimal digits and
  refuses every other string, a read of up to 65536 bytes gets its buffer,
  \<^verbatim>\<open>json.loads\<close> is given by the table of the texts the run parses, the upstream gives
  one answer and the base classes serve one page. The message of the decoder is the one
  for bytes that begin with \<open>0xFF\<close>, the only undecodable bytes of the runs.
\<close>

definition read_decimal :: "str \<Rightarrow> str + int" where
  "read_decimal s =
     (if s \<noteq> [] \<and> list_all (\<lambda>c. byte_in 0x30 0x39 c) s
      then Inr (foldl (\<lambda>n c. 10 * n + (int (of_char c) - 48)) 0 s)
      else Inl (''invalid literal for int() with base 10: '' @ quoted s))"

definition start_byte_error :: str where
  "start_byte_error =
     quoted ''utf-8'' @ '' codec can'' @ [CHR 0x27] @
     ''t decode byte 0xff in position 0: invalid start byte''"

definition example_library ::
    "(str \<times> (str + json)) list \<Rightarrow> (pyexc + upstream_response) \<Rightarrow> stdlib" where
  "example_library parses answer =
     \<lparr>int_of_str = read_decimal,
      buffer_fault = (\<lambda>b n. if n \<le> 65536 then None else Some (MemoryError, [])),
      utf8_error = (\<lambda>b. start_byte_error),
      json_loads = (\<lambda>s. case map_of parses s of
                            None \<Rightarrow> Inl ''Expecting value: line 1 column 1 (char 0)''
                          | Some r \<Rightarrow> r),
      transport = (\<lambda>req. answer),
      version_string = ''SimpleHTTP/0.6 Python/3.11.10'',
      date_time_string = ''Tue, 03 Nov 2026 12:00:00 GMT'',
      inherited = (\<lambda>rq. (200, [(''Content-type'', ''text/html'')], [Raw ''<html></html>'']))\<rparr>"

text \<open>A POST with the body \<open>b\<close>, sent as HTTP/1.1 and sent with the version HTTP/0.9.\<close>

definition post :: "str \<Rightarrow> str \<Rightarrow> request" where
  "post p b =
     \<lparr>request_version = ''HTTP/1.1'', command = POST, url_path = p,
      content_length = Some (str_of_nat (length b)), rfile = b\<rparr>"

definition old_post :: "str \<Rightarrow> str \<Rightarrow> request" where
  "old_post p b = (post p b)\<lparr>request_version := ''HTTP/0.9''\<rparr>"

text \<open>The scenario of the specification, and an image request with a key.\<close>

definition claude_text :: str where
  \<open>claude_text = ''{"apiKey":"sk-ant-xxxx","body":{"model":"m1","max_tokens":10}}''\<close>

definition claude_body :: json where
  "claude_body = JDict [(''model'', JStr ''m1''), (''max_tokens'', JInt 10)]"

definition claude_envelope :: json where
  "claude_envelope = JDict [(''apiKey'', JStr ''sk-ant-xxxx''), (''body'', claude_body)]"

definition hi_text :: str where
  \<open>hi_text = ''{"content":[{"text":"hi"}]}''\<close>

definition hi_json :: json where
  "hi_json = JDict [(''content'', JList [JDict [(''text'', JStr ''hi'')]])]"

definition gemini_text :: str where
  \<open>gemini_text = ''{"apiKey":"k","body":{"contents":[{"parts":[{"text":"a cat"}]}]}}''\<close>

definition cat_body :: json where
  "cat_body = JDict [(''contents'', JList [JDict [(''parts'', JList [JDict [(''text'', JStr ''a cat'')]])]])]"

definition gemini_envelope :: json where
  "gemini_envelope = JDict [(''apiKey'', JStr ''k''), (''body'', cat_body)]"

text \<open>An image request whose prompt list is empty, one without a key, and an empty object.\<close>

definition no_contents_text :: str where
  \<open>no_contents_text = ''{"apiKey":"k","body":{"contents":[]}}''\<close>

definition no_contents_envelope :: json where
  "no_contents_envelope =
     JDict [(''apiKey'', JStr ''k''), (''body'', JDict [(''contents'', JList [])])]"

definition keyless_text :: str where
  \<open>keyless_text = ''{"body":{"contents":[{"parts":[{"text":"a cat"}]}]}}''\<close>

definition keyless_envelope :: json where
  "keyless_envelope = JDict [(''body'', cat_body)]"

text \<open>
  A text request with the literal \<^verbatim>\<open>NaN\<close>, which is no JSON and which
  \<^verbatim>\<open>json.loads\<close> reads as a float.
\<close>

definition nan_text :: str where
  \<open>nan_text = ''{"apiKey":"k","body":{"temperature":NaN}}''\<close>

definition nan_body :: json where
  "nan_body = JDict [(''temperature'', JFloat NaN)]"

definition nan_envelope :: json where
  "nan_envelope = JDict [(''apiKey'', JStr ''k''), (''body'', nan_body)]"


definition simple_get :: request where
  "simple_get =
     \<lparr>request_version = ''HTTP/0.9'', command = GET, url_path = ''/index.html'',
      content_length = None, rfile = []\<rparr>"

definition parses :: "(str \<times> (str + json)) list" where
  "parses =
     [(claude_text, Inr claude_envelope),
      (gemini_text, Inr gemini_envelope),
      (hi_text, Inr hi_json),
      (no_contents_text, Inr no_contents_envelope),
      (keyless_text, Inr keyless_envelope),
      (nan_text, Inr nan_envelope),
      (''{}'', Inr (JDict [])),
      (''{nope'',
       Inl ''Expecting property name enclosed in double quotes: line 1 column 2 (char 1)'')]"

text \<open>An answer 202 with a content type of its own.\<close>

definition accepted :: upstream_response where
  "accepted =
     \<lparr>up_status = 202,
      up_headers = [(''Content-Type'', ''application/json; charset=UTF-8'')],
      up_body = hi_text\<rparr>"

text \<open>A 2xx answer whose payload is no UTF-8, and the body of an answer 401.\<close>

definition undecodable :: upstream_response where
  "undecodable = \<lparr>up_status = 200, up_headers = [], up_body = [CHR 0xFF]\<rparr>"

definition unauthorized :: bytes where
  \<open>unauthorized = ''{"error":{"code":401,"message":"API key not valid"}}''\<close>

section \<open>Properties\<close>

lemmas send_defs =
  send_response_only_def send_header_def send_response_def end_headers_def
  base_end_headers_def wfile_write_def

lemmas run_defs =
  do_POST_def proxy_claude_def proxy_gemini_def claude_try_def gemini_try_def
  read_envelope_def and_then_def decode_utf8_def loads_def

lemmas example_defs =
  example_library_def post_def parses_def read_decimal_def rfile_read_def py_int_def
  claude_text_def gemini_text_def hi_text_def no_contents_text_def keyless_text_def
  nan_text_def byte_in_def str_of_nat.simps digit_char_def

text \<open>What sending does to each field of the state.\<close>

lemma send_header_fields:
  "status_line (send_header rq k v s) = status_line s"
  "header_lines (send_header rq k v s) =
     (if request_version rq = ''HTTP/0.9'' then header_lines s else header_lines s @ [(k, v)])"
  "headers_ended (send_header rq k v s) = headers_ended s"
  "body_out (send_header rq k v s) = body_out s"
  "upstream_calls (send_header rq k v s) = upstream_calls s"
  by (simp_all add: send_header_def)

lemma send_response_fields:
  "status_line (send_response L rq code s) =
     (if request_version rq = ''HTTP/0.9'' then status_line s else Some code)"
  "header_lines (send_response L rq code s) =
     (if request_version rq = ''HTTP/0.9'' then header_lines s
      else header_lines s @ [(''Server'', version_string L), (''Date'', date_time_string L)])"
  "headers_ended (send_response L rq code s) = headers_ended s"
  "body_out (send_response L rq code s) = body_out s"
  "upstream_calls (send_response L rq code s) = upstream_calls s"
  by (simp_all add: send_response_def send_response_only_def send_header_def)

lemma end_headers_fields:
  "status_line (end_headers rq s) = status_line s"
  "header_lines (end_headers rq s) =
     (if request_version rq = ''HTTP/0.9'' then header_lines s
      else header_lines s @
        [(''Access-Control-Allow-Origin'', ''*''),
         (''Access-Control-Allow-Methods'', ''GET, POST, OPTIONS''),
         (''Access-Control-Allow-Headers'', ''Content-Type, x-api-key, x-goog-api-key''),
         (''Cache-Control'', ''no-store, no-cache, must-revalidate'')])"
  "headers_ended (end_headers rq s) =
     (if request_version rq = ''HTTP/0.9'' then headers_ended s else True)"
  "body_out (end_headers rq s) = body_out s"
  "upstream_calls (end_headers rq s) = upstream_calls s"
  by (simp_all add: end_headers_def base_end_headers_def send_header_def)

lemma wfile_write_fields:
  "status_line (wfile_write b s) = status_line s"
  "header_lines (wfile_write b s) = header_lines s"
  "headers_ended (wfile_write b s) = headers_ended s"
  "body_out (wfile_write b s) = body_out s @ [b]"
  "upstream_calls (wfile_write b s) = upstream_calls s"
  by (simp_all add: wfile_write_def)

lemmas sent_fields =
  send_header_fields send_response_fields end_headers_fields wfile_write_fields

lemma fresh_fields:
  "status_line fresh = None"
  "header_lines fresh = []"
  "headers_ended fresh = False"
  "body_out fresh = []"
  "upstream_calls fresh = []"
  by (simp_all add: fresh_def)

subsection \<open>The example runs, evaluated\<close>

lemma post_fields:
  "request_version (post p b) = ''HTTP/1.1''"
  "command (post p b) = POST"
  "url_path (post p b) = p"
  "content_length (post p b) = Some (str_of_nat (length b))"
  "rfile (post p b) = b"
  by (simp_all add: post_def)

lemma old_post_fields:
  "request_version (old_post p b) = ''HTTP/0.9''"
  "command (old_post p b) = POST"
  "url_path (old_post p b) = p"
  "content_length (old_post p b) = Some (str_of_nat (length b))"
  "rfile (old_post p b) = b"
  by (simp_all add: old_post_def post_def)

lemma accepted_fields:
  "up_status accepted = 202"
  "up_headers accepted = [(''Content-Type'', ''application/json; charset=UTF-8'')]"
  "up_body accepted = hi_text"
  by (simp_all add: accepted_def)

lemma undecodable_fields:
  "up_status undecodable = 200"
  "up_body undecodable = [CHR 0xFF]"
  by (simp_all add: undecodable_def)

lemma library_fields:
  "transport (example_library ps a) req = a"
  "utf8_error (example_library ps a) b = start_byte_error"
  "version_string (example_library ps a) = ''SimpleHTTP/0.6 Python/3.11.10''"
  "date_time_string (example_library ps a) = ''Tue, 03 Nov 2026 12:00:00 GMT''"
  "inherited (example_library ps a) rq =
     (200, [(''Content-type'', ''text/html'')], [Raw ''<html></html>''])"
  by (simp_all add: example_library_def)

text \<open>The envelope does not depend on the version of the request.\<close>

lemma read_envelope_old_post: "read_envelope L (old_post p b) = read_envelope L (post p b)"
  by (simp add: read_envelope_def old_post_def)

lemma parse_claude_text:
  "read_envelope (example_library parses a) (post p claude_text) =
     Inr (JStr ''sk-ant-xxxx'', claude_body)"
  by (simp add: read_envelope_def and_then_def decode_utf8_def loads_def example_defs
      claude_envelope_def)

lemma parse_gemini_text:
  "read_envelope (example_library parses a) (post p gemini_text) = Inr (JStr ''k'', cat_body)"
  by (simp add: read_envelope_def and_then_def decode_utf8_def loads_def example_defs
      gemini_envelope_def)

lemma parse_no_contents_text:
  "read_envelope (example_library parses a) (post p no_contents_text) =
     Inr (JStr ''k'', JDict [(''contents'', JList [])])"
  by (simp add: read_envelope_def and_then_def decode_utf8_def loads_def example_defs
      no_contents_envelope_def)

lemma parse_keyless_text:
  "read_envelope (example_library parses a) (post p keyless_text) = Inr (JNull, cat_body)"
  by (simp add: read_envelope_def and_then_def decode_utf8_def loads_def example_defs
      keyless_envelope_def)


lemma parse_empty_object:
  "read_envelope (example_library parses a) (post p ''{}'') = Inr (JNull, JNull)"
  by (simp add: read_envelope_def and_then_def decode_utf8_def loads_def example_defs)

lemma parse_broken_text:
  "read_envelope (example_library parses a) (post p ''{nope'') =
     Inl (Exc JSONDecodeError
            ''Expecting property name enclosed in double quotes: line 1 column 2 (char 1)'')"
  by (simp add: read_envelope_def and_then_def decode_utf8_def loads_def example_defs)

lemma log_claude_body: "claude_log_request (JStr ''sk-ant-xxxx'') claude_body = Inr ()"
  by (simp add: claude_log_request_def and_then_def claude_body_def)


lemma log_cat_body: "gemini_log_request k cat_body = Inr ()"
  by (simp add: gemini_log_request_def and_then_def cat_body_def)

lemma log_no_contents:
  "gemini_log_request k (JDict [(''contents'', JList [])]) =
     Inl (Exc IndexError ''list index out of range'')"
  by (simp add: gemini_log_request_def and_then_def)

lemma log_null_body:
  "gemini_log_request k JNull =
     Inl (Exc AttributeError
            (quoted ''NoneType'' @ '' object has no attribute '' @ quoted ''get''))"
  by (simp add: gemini_log_request_def and_then_def)

lemma open_with_key:
  "urlopen (example_library ps a) (gemini_request (JStr k) b) = a"
  "urlopen (example_library ps a) (claude_request (JStr k) b) = a"
  by (simp_all add: urlopen_def gemini_request_def claude_request_def example_library_def)

lemma open_without_key:
  "urlopen L (gemini_request JNull b) =
     Inl (Exc TypeError (''expected string or bytes-like object, got '' @ quoted ''NoneType''))"
  by (simp add: urlopen_def gemini_request_def)

lemma hi_text_valid: "utf8_valid hi_text"
  by (simp add: hi_text_def byte_in_def)


subsection \<open>A successful upstream answer\<close>

text \<open>
  C1, as the specification has it: after a successful upstream call the caller gets the
  status and the \<^verbatim>\<open>Content-Type\<close> of the upstream and its payload. The handlers send
  the constants 200 and \<^verbatim>\<open>application/json\<close>: an upstream answer 202 with the content
  type \<^verbatim>\<open>application/json; charset=UTF-8\<close> reaches the caller as 200 with
  \<^verbatim>\<open>application/json\<close>. When the same request is sent with the version HTTP/0.9,
  the caller gets the payload without any status line.
\<close>

theorem success_status_counterexample:
  "urlopen (example_library parses (Inr accepted)) (gemini_request (JStr ''k'') cat_body) =
     Inr accepted \<and>
   up_status accepted = 202 \<and>
   map_of (up_headers accepted) ''Content-Type'' = Some ''application/json; charset=UTF-8'' \<and>
   status_line
     (fst (do_POST (example_library parses (Inr accepted)) (post ''/api/gemini'' gemini_text)
        fresh)) = Some 200 \<and>
   map_of
     (header_lines
        (fst (do_POST (example_library parses (Inr accepted)) (post ''/api/gemini'' gemini_text)
           fresh))) ''Content-Type'' = Some ''application/json'' \<and>
   status_line
     (fst (do_POST (example_library parses (Inr accepted))
        (old_post ''/api/gemini'' gemini_text) fresh)) = None \<and>
   body_out
     (fst (do_POST (example_library parses (Inr accepted))
        (old_post ''/api/gemini'' gemini_text) fresh)) = [Raw hi_text]"
  by (simp add: do_POST_def proxy_gemini_def gemini_try_def and_then_def parse_gemini_text
      read_envelope_old_post log_cat_body open_with_key sent_fields fresh_def accepted_fields
      post_fields old_post_fields Let_def)

text \<open>
  C1, amended: when the envelope parses, the request log raises nothing and
  \<^verbatim>\<open>urlopen\<close> returns an answer, the caller gets the payload of the upstream, byte for
  byte, and no exception leaves the handler; the status is 200 and the content type
  \<^verbatim>\<open>application/json\<close>, whatever the upstream sent, unless the version of the request
  is HTTP/0.9, for which neither is sent. On \<^verbatim>\<open>/api/claude\<close> this holds provided that
  the payload is UTF-8.
\<close>

theorem success_relayed:
  assumes "read_envelope L rq = Inr (api_key, body)"
    and "(url_path rq = ''/api/claude'' \<and> claude_log_request api_key body = Inr () \<and>
          urlopen L (claude_request api_key body) = Inr response \<and>
          utf8_valid (up_body response)) \<or>
         (url_path rq = ''/api/gemini'' \<and> gemini_log_request api_key body = Inr () \<and>
          urlopen L (gemini_request api_key body) = Inr response)"
  shows "snd (do_POST L rq fresh) = None \<and>
         status_line (fst (do_POST L rq fresh)) =
           (if request_version rq = ''HTTP/0.9'' then None else Some 200) \<and>
         map_of (header_lines (fst (do_POST L rq fresh))) ''Content-Type'' =
           (if request_version rq = ''HTTP/0.9'' then None else Some ''application/json'') \<and>
         body_out (fst (do_POST L rq fresh)) = [Raw (up_body response)]"
  using assms
  by (cases "request_version rq = ''HTTP/0.9''")
     (auto simp: do_POST_def proxy_claude_def proxy_gemini_def claude_try_def gemini_try_def
      and_then_def decode_utf8_def sent_fields fresh_def claude_log_response_def suppress_def
      split: sum.splits)

theorem success_relayed_witness:
  "read_envelope (example_library parses (Inr accepted)) (post ''/api/claude'' claude_text) =
     Inr (JStr ''sk-ant-xxxx'', claude_body) \<and>
   url_path (post ''/api/claude'' claude_text) = ''/api/claude'' \<and>
   claude_log_request (JStr ''sk-ant-xxxx'') claude_body = Inr () \<and>
   urlopen (example_library parses (Inr accepted))
     (claude_request (JStr ''sk-ant-xxxx'') claude_body) = Inr accepted \<and>
   utf8_valid (up_body accepted) \<and>
   status_line
     (fst (do_POST (example_library parses (Inr accepted)) (post ''/api/claude'' claude_text)
        fresh)) = Some 200 \<and>
   body_out
     (fst (do_POST (example_library parses (Inr accepted)) (post ''/api/claude'' claude_text)
        fresh)) = [Raw hi_text]"
proof -
  have p: "url_path (post ''/api/claude'' claude_text) = ''/api/claude''"
    by (simp add: post_fields)
  have v: "utf8_valid (up_body accepted)"
    by (simp add: accepted_fields hi_text_valid)
  have b: "up_body accepted = hi_text"
    by (simp add: accepted_fields)
  have o: "urlopen (example_library parses (Inr accepted))
             (claude_request (JStr ''sk-ant-xxxx'') claude_body) = Inr accepted"
    by (rule open_with_key)
  from success_relayed [OF parse_claude_text disjI1,
      OF conjI [OF p conjI [OF log_claude_body conjI [OF o v]]]]
    p v b o log_claude_body parse_claude_text
  show ?thesis by (simp add: post_fields)
qed

subsection \<open>Logging that raises\<close>

text \<open>
  C2. The logging is meant to leave the response alone, as the inner \<^verbatim>\<open>try\<close> around
  the inspection of the answer does. The rest of the logging is evaluated inside the outer
  \<^verbatim>\<open>try\<close>, and what it raises reaches the \<^verbatim>\<open>except\<close> clauses. For an image request
  whose \<^verbatim>\<open>contents\<close> is the empty list the prompt log raises \<^verbatim>\<open>IndexError\<close>: the
  caller gets 500 and \<^verbatim>\<open>urlopen\<close> is not called, though the upstream would have
  answered. For a text request answered with a payload that is no UTF-8 the decoding for
  the response log raises: the caller gets 500 in place of the payload.
\<close>

theorem log_failure_changes_reply:
  "gemini_log_request (JStr ''k'') (JDict [(''contents'', JList [])]) =
     Inl (Exc IndexError ''list index out of range'') \<and>
   urlopen (example_library parses (Inr accepted))
     (gemini_request (JStr ''k'') (JDict [(''contents'', JList [])])) = Inr accepted \<and>
   status_line
     (fst (do_POST (example_library parses (Inr accepted))
        (post ''/api/gemini'' no_contents_text) fresh)) = Some 500 \<and>
   body_out
     (fst (do_POST (example_library parses (Inr accepted))
        (post ''/api/gemini'' no_contents_text) fresh)) =
     [Dumped (JDict [(''error'', JDict [(''message'', JStr ''list index out of range'')])])] \<and>
   upstream_calls
     (fst (do_POST (example_library parses (Inr accepted))
        (post ''/api/gemini'' no_contents_text) fresh)) = [] \<and>
   status_line
     (fst (do_POST (example_library parses (Inr undecodable))
        (post ''/api/claude'' claude_text) fresh)) = Some 500 \<and>
   body_out
     (fst (do_POST (example_library parses (Inr undecodable))
        (post ''/api/claude'' claude_text) fresh)) =
     [Dumped (JDict [(''error'', JDict [(''message'', JStr start_byte_error)])])]"
  by (simp add: do_POST_def proxy_gemini_def gemini_try_def proxy_claude_def claude_try_def
      and_then_def parse_no_contents_text log_no_contents parse_claude_text log_claude_body
      open_with_key claude_log_response_def decode_utf8_def undecodable_fields byte_in_def
      library_fields sent_fields fresh_def post_fields Let_def)

text \<open>
  What the inner \<^verbatim>\<open>try\<close> achieves: once the payload is decoded, nothing the
  inspection raises reaches the handler.
\<close>

lemma inspection_suppressed:
  "utf8_valid (up_body response) \<Longrightarrow> claude_log_response L response = Inr ()"
  by (simp add: claude_log_response_def decode_utf8_def and_then_def suppress_def
      split: sum.splits)

subsection \<open>A body that is no JSON\<close>




subsection \<open>An upstream answer that is an HTTP error\<close>

text \<open>
  When \<^verbatim>\<open>urlopen\<close> raises \<^verbatim>\<open>HTTPError\<close> and the body of the error is UTF-8, the
  caller gets the body of the upstream and, for a version other than HTTP/0.9, its status.
\<close>

lemma http_error_forwarded:
  assumes "read_envelope L rq = Inr (api_key, body)"
    and "(url_path rq = ''/api/claude'' \<and> claude_log_request api_key body = Inr () \<and>
          urlopen L (claude_request api_key body) = Inl (HTTPError code error_body)) \<or>
         (url_path rq = ''/api/gemini'' \<and> gemini_log_request api_key body = Inr () \<and>
          urlopen L (gemini_request api_key body) = Inl (HTTPError code error_body))"
    and "utf8_valid error_body"
  shows "snd (do_POST L rq fresh) = None \<and>
         status_line (fst (do_POST L rq fresh)) =
           (if request_version rq = ''HTTP/0.9'' then None else Some code) \<and>
         body_out (fst (do_POST L rq fresh)) = [Raw error_body]"
  using assms
  by (cases "request_version rq = ''HTTP/0.9''")
     (auto simp: do_POST_def proxy_claude_def proxy_gemini_def claude_try_def gemini_try_def
      and_then_def decode_utf8_def sent_fields fresh_def)

text \<open>
  C4. Both \<^verbatim>\<open>except HTTPError\<close> clauses decode the body of the error for the log before
  they send anything. When the upstream answers 502 with a body that is no UTF-8, the
  decoding raises inside the clause, the exception leaves the handler, and nothing is sent
  to the caller: neither the status 502 nor the body.
\<close>

theorem undecodable_error_body_escapes:
  "urlopen (example_library parses (Inl (HTTPError 502 [CHR 0xFF])))
     (gemini_request (JStr ''k'') cat_body) = Inl (HTTPError 502 [CHR 0xFF]) \<and>
   do_POST (example_library parses (Inl (HTTPError 502 [CHR 0xFF])))
     (post ''/api/gemini'' gemini_text) fresh =
     (fresh\<lparr>upstream_calls := [gemini_request (JStr ''k'') cat_body]\<rparr>,
      Some (Exc UnicodeDecodeError start_byte_error)) \<and>
   do_POST (example_library parses (Inl (HTTPError 502 [CHR 0xFF])))
     (post ''/api/claude'' claude_text) fresh =
     (fresh\<lparr>upstream_calls := [claude_request (JStr ''sk-ant-xxxx'') claude_body]\<rparr>,
      Some (Exc UnicodeDecodeError start_byte_error)) \<and>
   status_line (fresh\<lparr>upstream_calls := [gemini_request (JStr ''k'') cat_body]\<rparr>) = None \<and>
   body_out (fresh\<lparr>upstream_calls := [gemini_request (JStr ''k'') cat_body]\<rparr>) = []"
  by (simp add: do_POST_def proxy_gemini_def gemini_try_def proxy_claude_def claude_try_def
      and_then_def parse_gemini_text log_cat_body parse_claude_text log_claude_body
      open_with_key decode_utf8_def byte_in_def library_fields fresh_def post_fields Let_def)

subsection \<open>An image request without a key\<close>

text \<open>
  C5, as the specification has it: an image request without \<^verbatim>\<open>apiKey\<close> still reaches
  the upstream, whose 401 is forwarded. The handler hands \<^verbatim>\<open>None\<close> to \<^verbatim>\<open>urlopen\<close>
  as the value of \<^verbatim>\<open>x-goog-api-key\<close>, the HTTP client refuses that value before it
  sends anything, and the caller gets 500, though the upstream answers 401 to whatever
  reaches it. For the envelope \<^verbatim>\<open>{}\<close> the prompt log raises first and \<^verbatim>\<open>urlopen\<close>
  is not called at all. With the version HTTP/0.9 the caller gets no status line.
\<close>

theorem missing_key_counterexample:
  "transport (example_library parses (Inl (HTTPError 401 unauthorized)))
     (gemini_request JNull cat_body) = Inl (HTTPError 401 unauthorized) \<and>
   status_line
     (fst (do_POST (example_library parses (Inl (HTTPError 401 unauthorized)))
        (post ''/api/gemini'' keyless_text) fresh)) = Some 500 \<and>
   body_out
     (fst (do_POST (example_library parses (Inl (HTTPError 401 unauthorized)))
        (post ''/api/gemini'' keyless_text) fresh)) =
     [Dumped (JDict [(''error'', JDict [(''message'', JStr
        (''expected string or bytes-like object, got '' @ quoted ''NoneType''))])])] \<and>
   status_line
     (fst (do_POST (example_library parses (Inl (HTTPError 401 unauthorized)))
        (post ''/api/gemini'' ''{}'') fresh)) = Some 500 \<and>
   upstream_calls
     (fst (do_POST (example_library parses (Inl (HTTPError 401 unauthorized)))
        (post ''/api/gemini'' ''{}'') fresh)) = [] \<and>
   status_line
     (fst (do_POST (example_library parses (Inl (HTTPError 401 unauthorized)))
        (old_post ''/api/gemini'' keyless_text) fresh)) = None"
  by (simp add: do_POST_def proxy_gemini_def gemini_try_def and_then_def parse_keyless_text
      parse_empty_object read_envelope_old_post log_cat_body log_null_body open_without_key
      sent_fields fresh_def post_fields old_post_fields Let_def library_fields)

text \<open>
  C5, amended: the proxy does not check that the key is there. For an image request whose
  envelope is a JSON object without \<^verbatim>\<open>apiKey\<close> and whose \<^verbatim>\<open>body\<close> passes the prompt
  log, \<^verbatim>\<open>urlopen\<close> is called once, with \<^verbatim>\<open>None\<close> as the value of
  \<^verbatim>\<open>x-goog-api-key\<close>; the call raises \<^verbatim>\<open>TypeError\<close> before anything is sent, and the
  caller gets the object \<^verbatim>\<open>{"error": {"message": ...}}\<close> with the message of that
  exception, with status 500 unless the version of the request is HTTP/0.9, for which no
  status line is sent. No answer of the upstream is forwarded.
\<close>

theorem missing_key_refused_locally:
  assumes "url_path rq = ''/api/gemini''"
    and "py_int L (content_length rq) = Inr n"
    and "rfile_read L (rfile rq) n = Inr post_data"
    and "utf8_valid post_data"
    and "json_loads L post_data = Inr (JDict kvs)"
    and "map_of kvs ''apiKey'' = None"
    and "map_of kvs ''body'' = Some body"
    and "gemini_log_request JNull body = Inr ()"
  shows "snd (do_POST L rq fresh) = None \<and>
         upstream_calls (fst (do_POST L rq fresh)) = [gemini_request JNull body] \<and>
         map_of (req_headers (gemini_request JNull body)) ''x-goog-api-key'' = Some JNull \<and>
         status_line (fst (do_POST L rq fresh)) =
           (if request_version rq = ''HTTP/0.9'' then None else Some 500) \<and>
         body_out (fst (do_POST L rq fresh)) =
           [Dumped (JDict [(''error'', JDict [(''message'', JStr
              (''expected string or bytes-like object, got '' @ quoted ''NoneType''))])])]"
  using assms
  by (cases "request_version rq = ''HTTP/0.9''")
     (simp_all add: run_defs sent_fields fresh_def urlopen_def gemini_request_def)

theorem missing_key_refused_locally_witness:
  "url_path (post ''/api/gemini'' keyless_text) = ''/api/gemini'' \<and>
   py_int (example_library parses (Inl (HTTPError 401 unauthorized)))
     (content_length (post ''/api/gemini'' keyless_text)) = Inr 52 \<and>
   rfile_read (example_library parses (Inl (HTTPError 401 unauthorized)))
     (rfile (post ''/api/gemini'' keyless_text)) 52 = Inr keyless_text \<and>
   utf8_valid keyless_text \<and>
   json_loads (example_library parses (Inl (HTTPError 401 unauthorized))) keyless_text =
     Inr (JDict [(''body'', cat_body)]) \<and>
   map_of [(''body'', cat_body)] ''apiKey'' = None \<and>
   map_of [(''body'', cat_body)] ''body'' = Some cat_body \<and>
   gemini_log_request JNull cat_body = Inr () \<and>
   upstream_calls
     (fst (do_POST (example_library parses (Inl (HTTPError 401 unauthorized)))
        (post ''/api/gemini'' keyless_text) fresh)) = [gemini_request JNull cat_body] \<and>
   status_line
     (fst (do_POST (example_library parses (Inl (HTTPError 401 unauthorized)))
        (post ''/api/gemini'' keyless_text) fresh)) = Some 500"
proof -
  have a: "url_path (post ''/api/gemini'' keyless_text) = ''/api/gemini''"
    by (simp add: post_fields)
  have b: "py_int (example_library parses (Inl (HTTPError 401 unauthorized)))
             (content_length (post ''/api/gemini'' keyless_text)) = Inr 52"
    by (simp add: example_defs)
  have r: "rfile_read (example_library parses (Inl (HTTPError 401 unauthorized)))
             (rfile (post ''/api/gemini'' keyless_text)) 52 = Inr keyless_text"
    by (simp add: example_defs)
  have c: "utf8_valid keyless_text"
    by (simp add: keyless_text_def byte_in_def)
  have d: "json_loads (example_library parses (Inl (HTTPError 401 unauthorized))) keyless_text =
           Inr (JDict [(''body'', cat_body)])"
    by (simp add: example_defs keyless_envelope_def)
  have e: "map_of [(''body'', cat_body)] ''apiKey'' = None"
    by simp
  have f: "map_of [(''body'', cat_body)] ''body'' = Some cat_body"
    by simp
  have k: "request_version (post ''/api/gemini'' keyless_text) \<noteq> ''HTTP/0.9''"
    by (simp add: post_fields)
  note t = missing_key_refused_locally [OF a b r c d e f log_cat_body]
  from t have
    "upstream_calls
       (fst (do_POST (example_library parses (Inl (HTTPError 401 unauthorized)))
          (post ''/api/gemini'' keyless_text) fresh)) = [gemini_request JNull cat_body] \<and>
     status_line
       (fst (do_POST (example_library parses (Inl (HTTPError 401 unauthorized)))
          (post ''/api/gemini'' keyless_text) fresh)) = Some 500"
    by (simp only: k if_False)
  with a b r c d e f log_cat_body show ?thesis by blast
qed

subsection \<open>OPTIONS\<close>




subsection \<open>The CORS headers\<close>

lemma fold_write_fields:
  "status_line (fold wfile_write cs s) = status_line s"
  "header_lines (fold wfile_write cs s) = header_lines s"
  "headers_ended (fold wfile_write cs s) = headers_ended s"
  "upstream_calls (fold wfile_write cs s) = upstream_calls s"
  by (induction cs arbitrary: s) (simp_all add: wfile_write_def)


lemma cors_sent_end_headers:
  "request_version rq \<noteq> ''HTTP/0.9'' \<Longrightarrow> cors_sent (end_headers rq s)"
  by (simp add: cors_sent_def end_headers_fields)

lemma cors_sent_write: "cors_sent s \<Longrightarrow> cors_sent (wfile_write b s)"
  by (simp add: cors_sent_def wfile_write_fields)

lemma cors_sent_fold_write: "cors_sent s \<Longrightarrow> cors_sent (fold wfile_write cs s)"
  by (simp add: cors_sent_def fold_write_fields)

text \<open>A \<^verbatim>\<open>try\<close> block that raises has sent nothing; one that ends has sent the headers.\<close>

lemma claude_try_silent:
  "claude_try L rq fresh = (Inl e, s') \<Longrightarrow> status_line s' = None \<and> body_out s' = []"
  by (auto simp: claude_try_def fresh_def Let_def split: sum.splits prod.splits)

lemma gemini_try_silent:
  "gemini_try L rq fresh = (Inl e, s') \<Longrightarrow> status_line s' = None \<and> body_out s' = []"
  by (auto simp: gemini_try_def fresh_def Let_def split: sum.splits prod.splits)

lemma claude_try_cors:
  "request_version rq \<noteq> ''HTTP/0.9'' \<Longrightarrow> claude_try L rq fresh = (Inr u, s') \<Longrightarrow>
   cors_sent s'"
  by (auto simp: claude_try_def Let_def cors_sent_write cors_sent_end_headers
      split: sum.splits prod.splits)

lemma gemini_try_cors:
  "request_version rq \<noteq> ''HTTP/0.9'' \<Longrightarrow> gemini_try L rq fresh = (Inr u, s') \<Longrightarrow>
   cors_sent s'"
  by (auto simp: gemini_try_def Let_def cors_sent_write cors_sent_end_headers
      split: sum.splits prod.splits)

lemma proxy_claude_cors:
  assumes "request_version rq \<noteq> ''HTTP/0.9''"
    and "status_line (fst (proxy_claude L rq fresh)) \<noteq> None \<or>
         body_out (fst (proxy_claude L rq fresh)) \<noteq> []"
  shows "cors_sent (fst (proxy_claude L rq fresh))"
  using assms
  by (cases "claude_try L rq fresh")
     (auto simp: proxy_claude_def cors_sent_write cors_sent_end_headers
        dest: claude_try_silent claude_try_cors split: sum.splits pyexc.splits)

lemma proxy_gemini_cors:
  assumes "request_version rq \<noteq> ''HTTP/0.9''"
    and "status_line (fst (proxy_gemini L rq fresh)) \<noteq> None \<or>
         body_out (fst (proxy_gemini L rq fresh)) \<noteq> []"
  shows "cors_sent (fst (proxy_gemini L rq fresh))"
  using assms
  by (cases "gemini_try L rq fresh")
     (auto simp: proxy_gemini_def cors_sent_write cors_sent_end_headers
        dest: gemini_try_silent gemini_try_cors split: sum.splits pyexc.splits)

lemma base_reply_cors:
  "request_version rq \<noteq> ''HTTP/0.9'' \<Longrightarrow> cors_sent (base_reply L rq r s)"
  by (simp add: base_reply_def cors_sent_fold_write cors_sent_end_headers split: prod.splits)

lemma handle_cors:
  assumes "request_version rq \<noteq> ''HTTP/0.9''"
    and "status_line (fst (handle L rq fresh)) \<noteq> None \<or>
         body_out (fst (handle L rq fresh)) \<noteq> []"
  shows "cors_sent (fst (handle L rq fresh))"
proof (cases "command rq")
  case OPTIONS
  with assms(1) show ?thesis
    by (simp add: handle_def do_OPTIONS_def cors_sent_end_headers)
next
  case POST
  with assms show ?thesis
    by (auto simp: handle_def do_POST_def fresh_fields
        intro: proxy_claude_cors proxy_gemini_cors split: if_splits)
next
  case GET
  with assms(1) show ?thesis by (simp add: handle_def base_reply_cors)
next
  case HEAD
  with assms(1) show ?thesis by (simp add: handle_def base_reply_cors)
next
  case (OtherMethod x)
  with assms(1) show ?thesis by (simp add: handle_def base_reply_cors)
qed

text \<open>
  C7, as the specification has it: every response carries the CORS and cache headers.
  A request of version HTTP/0.9, such as \<^verbatim>\<open>GET /index.html\<close> without a version, is
  answered with the body alone: \<^verbatim>\<open>send_header\<close> sends nothing for it.
\<close>

theorem cors_headers_counterexample:
  "body_out (fst (handle (example_library parses (Inr accepted)) simple_get fresh)) =
     [Raw ''<html></html>''] \<and>
   header_lines (fst (handle (example_library parses (Inr accepted)) simple_get fresh)) = [] \<and>
   status_line (fst (handle (example_library parses (Inr accepted)) simple_get fresh)) = None"
  by (simp add: handle_def base_reply_def simple_get_def library_fields send_defs fresh_def)

text \<open>
  C7, amended: whenever the request version in force is not HTTP/0.9 and anything is
  sent at all, by \<^verbatim>\<open>do_OPTIONS\<close>, by one of the proxy methods (relayed answer,
  forwarded error or 500), by an inherited method or by \<^verbatim>\<open>send_error\<close> for a request
  that is not accepted, the response carries the three CORS headers and
  \<^verbatim>\<open>Cache-Control\<close> with the values of \<^verbatim>\<open>end_headers\<close>, and its headers are ended.
\<close>

theorem cors_on_every_response:
  assumes "request_version rq \<noteq> ''HTTP/0.9''"
    and "s' = fst (handle L rq fresh) \<or> s' = refuse L rq fresh"
    and "status_line s' \<noteq> None \<or> body_out s' \<noteq> []"
  shows "headers_ended s' \<and>
         (''Access-Control-Allow-Origin'', ''*'') \<in> set (header_lines s') \<and>
         (''Access-Control-Allow-Methods'', ''GET, POST, OPTIONS'') \<in> set (header_lines s') \<and>
         (''Access-Control-Allow-Headers'', ''Content-Type, x-api-key, x-goog-api-key'')
           \<in> set (header_lines s') \<and>
         (''Cache-Control'', ''no-store, no-cache, must-revalidate'') \<in> set (header_lines s')"
proof -
  from assms(2) have "cors_sent s'"
  proof
    assume "s' = fst (handle L rq fresh)"
    with assms(1,3) show ?thesis by (simp add: handle_cors)
  next
    assume "s' = refuse L rq fresh"
    with assms(1) show ?thesis by (simp add: refuse_def base_reply_cors)
  qed
  then show ?thesis by (simp add: cors_sent_def)
qed

theorem cors_on_every_response_witness:
  "request_version (post ''/api/claude'' ''{nope'') \<noteq> ''HTTP/0.9'' \<and>
   status_line
     (fst (handle (example_library parses (Inr accepted)) (post ''/api/claude'' ''{nope'') fresh)) \<noteq>
     None \<and>
   (''Access-Control-Allow-Origin'', ''*'')
     \<in> set (header_lines
         (fst (handle (example_library parses (Inr accepted)) (post ''/api/claude'' ''{nope'')
            fresh))) \<and>
   (''Cache-Control'', ''no-store, no-cache, must-revalidate'')
     \<in> set (header_lines
         (fst (handle (example_library parses (Inr accepted)) (post ''/api/claude'' ''{nope'')
            fresh)))"
proof -
  have k: "request_version (post ''/api/claude'' ''{nope'') \<noteq> ''HTTP/0.9''"
    by (simp add: post_fields)
  have a: "status_line
     (fst (handle (example_library parses (Inr accepted)) (post ''/api/claude'' ''{nope'') fresh)) \<noteq>
     None"
    by (simp add: handle_def do_POST_def proxy_claude_def claude_try_def and_then_def
        parse_broken_text sent_fields fresh_def post_fields)
  from cors_on_every_response [OF k disjI1 [OF refl] disjI1 [OF a]] k a
  show ?thesis by blast
qed

subsection \<open>Timeouts\<close>









subsection \<open>An upstream call that fails\<close>

text \<open>
  C9, as the specification has it: a network error is answered with status 500. When
  the request comes with the version HTTP/0.9, the caller gets the error object without
  any status line.
\<close>

theorem network_failure_counterexample:
  "urlopen (example_library parses (Inl (URLError ''timed out'')))
     (gemini_request (JStr ''k'') cat_body) = Inl (URLError ''timed out'') \<and>
   status_line
     (fst (do_POST (example_library parses (Inl (URLError ''timed out'')))
        (old_post ''/api/gemini'' gemini_text) fresh)) = None \<and>
   body_out
     (fst (do_POST (example_library parses (Inl (URLError ''timed out'')))
        (old_post ''/api/gemini'' gemini_text) fresh)) =
     [Dumped (JDict [(''error'', JDict [(''message'', JStr ''Network error: timed out'')])])]"
  by (simp add: do_POST_def proxy_gemini_def gemini_try_def and_then_def parse_gemini_text
      read_envelope_old_post log_cat_body open_with_key sent_fields fresh_def old_post_fields
      Let_def)

text \<open>
  C9, amended: when the envelope parses, the request log raises nothing and
  \<^verbatim>\<open>urlopen\<close> raises anything but \<^verbatim>\<open>HTTPError\<close> (a \<^verbatim>\<open>URLError\<close> for a failed
  connection or a timeout, or any other exception), the caller gets the serialisation of
  the object \<^verbatim>\<open>{"error": {"message": m}}\<close>, and \<^verbatim>\<open>urlopen\<close> was called exactly once.
  For a \<^verbatim>\<open>URLError\<close> with the reason \<open>r\<close> the message is \<^verbatim>\<open>Network error: r\<close> on
  \<^verbatim>\<open>/api/gemini\<close> and \<^verbatim>\<open><urlopen error r>\<close> on \<^verbatim>\<open>/api/claude\<close>; for any other
  exception it is the message of the exception. The status is 500, unless the version of
  the request is HTTP/0.9, for which no status line is sent.
\<close>

theorem network_failure_reply:
  assumes "read_envelope L rq = Inr (api_key, body)"
    and "(url_path rq = ''/api/claude'' \<and> claude_log_request api_key body = Inr () \<and>
          req = claude_request api_key body) \<or>
         (url_path rq = ''/api/gemini'' \<and> gemini_log_request api_key body = Inr () \<and>
          req = gemini_request api_key body)"
    and "urlopen L req = Inl e"
    and "e = URLError reason \<or> e = Exc c m"
  shows "snd (do_POST L rq fresh) = None \<and>
         status_line (fst (do_POST L rq fresh)) =
           (if request_version rq = ''HTTP/0.9'' then None else Some 500) \<and>
         body_out (fst (do_POST L rq fresh)) =
           [Dumped (JDict [(''error'', JDict [(''message'', JStr
              (if e = Exc c m then m
               else if url_path rq = ''/api/gemini'' then ''Network error: '' @ reason
               else ''<urlopen error '' @ reason @ ''>''))])])] \<and>
         upstream_calls (fst (do_POST L rq fresh)) = [req]"
  using assms
  by (cases "request_version rq = ''HTTP/0.9''")
     (auto simp: do_POST_def proxy_claude_def proxy_gemini_def claude_try_def gemini_try_def
      and_then_def sent_fields fresh_def)

theorem network_failure_reply_witness:
  "read_envelope (example_library parses (Inl (URLError ''timed out'')))
     (post ''/api/gemini'' gemini_text) = Inr (JStr ''k'', cat_body) \<and>
   url_path (post ''/api/gemini'' gemini_text) = ''/api/gemini'' \<and>
   gemini_log_request (JStr ''k'') cat_body = Inr () \<and>
   urlopen (example_library parses (Inl (URLError ''timed out'')))
     (gemini_request (JStr ''k'') cat_body) = Inl (URLError ''timed out'') \<and>
   status_line
     (fst (do_POST (example_library parses (Inl (URLError ''timed out'')))
        (post ''/api/gemini'' gemini_text) fresh)) = Some 500 \<and>
   body_out
     (fst (do_POST (example_library parses (Inl (URLError ''timed out'')))
        (post ''/api/gemini'' gemini_text) fresh)) =
     [Dumped (JDict [(''error'', JDict [(''message'', JStr ''Network error: timed out'')])])] \<and>
   upstream_calls
     (fst (do_POST (example_library parses (Inl (URLError ''timed out'')))
        (post ''/api/gemini'' gemini_text) fresh)) = [gemini_request (JStr ''k'') cat_body]"
proof -
  have p: "url_path (post ''/api/gemini'' gemini_text) = ''/api/gemini''"
    by (simp add: post_fields)
  have o: "urlopen (example_library parses (Inl (URLError ''timed out'')))
             (gemini_request (JStr ''k'') cat_body) = Inl (URLError ''timed out'')"
    by (rule open_with_key)
  have k: "request_version (post ''/api/gemini'' gemini_text) \<noteq> ''HTTP/0.9''"
    by (simp add: post_fields)
  note t = network_failure_reply [OF parse_gemini_text disjI2 o disjI1,
      OF conjI [OF p conjI [OF log_cat_body refl]] refl, of TypeError "[]"]
  from t k p have
    "status_line
       (fst (do_POST (example_library parses (Inl (URLError ''timed out'')))
          (post ''/api/gemini'' gemini_text) fresh)) = Some 500 \<and>
     body_out
       (fst (do_POST (example_library parses (Inl (URLError ''timed out'')))
          (post ''/api/gemini'' gemini_text) fresh)) =
       [Dumped (JDict [(''error'', JDict [(''message'', JStr ''Network error: timed out'')])])] \<and>
     upstream_calls
       (fst (do_POST (example_library parses (Inl (URLError ''timed out'')))
          (post ''/api/gemini'' gemini_text) fresh)) = [gemini_request (JStr ''k'') cat_body]"
    by simp
  with p o log_cat_body parse_gemini_text show ?thesis by blast
qed

subsection \<open>A request without a usable Content-Length\<close>




end
